theory Spec2Isabelle
  imports Main "HOL-Library.Sublist" "HOL-Library.AList" "HOL-Library.Word"
begin

section \<open>The AssemblyAI transcript reader (\<^verbatim>\<open>src/assembly_ai_reader.py\<close>)\<close>

text \<open>
  The reader is one class, \<^verbatim>\<open>AssemblyAITranscriptReader\<close>, with a constructor and three
  methods. Everything it does beyond branching is a call into a collaborator: the
  process environment, \<^verbatim>\<open>pathlib\<close>, \<^verbatim>\<open>tempfile\<close>, \<^verbatim>\<open>pydub\<close>, the
  AssemblyAI client, \<^verbatim>\<open>os.remove\<close>, the \<^verbatim>\<open>FlatReader\<close> and the logger. The answers of
  the collaborators during one call are the fields of a record \<open>env\<close>; what a call
  leaves behind (the files on disk, and the calls and log lines in the order they were
  made) is a record \<open>world\<close> that every function takes and returns. An exception is the
  \<open>Inl\<close> side of a sum.

  Python names that start with an underscore lose it: \<open>init\<close> is \<^verbatim>\<open>__init__\<close>,
  \<open>prepare_audio_file\<close> is \<^verbatim>\<open>_prepare_audio_file\<close> and \<open>transcribe_with_assemblyai\<close> is
  \<^verbatim>\<open>_transcribe_with_assemblyai\<close>. Strings are byte strings.
\<close>

subsection \<open>Python values\<close>

text \<open>
  The exceptions that the file raises itself are \<^verbatim>\<open>ValueError\<close> (line 77),
  \<^verbatim>\<open>ImportError\<close> (line 193) and the plain \<^verbatim>\<open>Exception\<close> of line 248, here
  \<open>PyException\<close>. The others come out of the collaborators and are passed on unchanged.
  Each carries its message, which is what \<^verbatim>\<open>str(e)\<close> prints.
\<close>

datatype py_exception =
    ValueError string
  | ImportError string
  | PyException string
  | IndexError string
  | FileExistsError string
  | FileNotFoundError string
  | OSError string
  | LibraryError string

fun str_exc :: "py_exception \<Rightarrow> string" where
  "str_exc (ValueError m) = m"
| "str_exc (ImportError m) = m"
| "str_exc (PyException m) = m"
| "str_exc (IndexError m) = m"
| "str_exc (FileExistsError m) = m"
| "str_exc (FileNotFoundError m) = m"
| "str_exc (OSError m) = m"
| "str_exc (LibraryError m) = m"

text \<open>
  Truth value of an \<^verbatim>\<open>Optional[str]\<close> and of an optional list: \<^verbatim>\<open>None\<close> and the empty
  value are false. \<open>py_or\<close> is \<^verbatim>\<open>a or b\<close> on optional strings; \<open>str_opt\<close> is what an
  f-string prints for an optional string.
\<close>

definition truthy :: "'a list option \<Rightarrow> bool" where
  "truthy v = (case v of None \<Rightarrow> False | Some xs \<Rightarrow> xs \<noteq> [])"

definition py_or :: "'a list option \<Rightarrow> 'a list option \<Rightarrow> 'a list option" where
  "py_or a b = (if truthy a then a else b)"

definition str_opt :: "string option \<Rightarrow> string" where
  "str_opt v = (case v of None \<Rightarrow> ''None'' | Some s \<Rightarrow> s)"

text \<open>
  \<open>quoted s\<close> is \<open>s\<close> between two apostrophes. \<open>lower\<close> is \<^verbatim>\<open>str.lower\<close> on the
  ASCII letters (other bytes are left as they are); \<open>startswith\<close> and \<open>endswith\<close> are
  \<^verbatim>\<open>str.startswith\<close> and \<^verbatim>\<open>str.endswith\<close> with a tuple of alternatives.
\<close>

definition quoted :: "string \<Rightarrow> string" where
  "quoted s = [CHR 0x27] @ s @ [CHR 0x27]"

definition lower_char :: "char \<Rightarrow> char" where
  "lower_char c =
     (case map_of (zip ''ABCDEFGHIJKLMNOPQRSTUVWXYZ'' ''abcdefghijklmnopqrstuvwxyz'') c of
        Some l \<Rightarrow> l
      | None \<Rightarrow> c)"

definition lower :: "string \<Rightarrow> string" where
  "lower s = map lower_char s"

definition startswith :: "string \<Rightarrow> string list \<Rightarrow> bool" where
  "startswith s ps = list_ex (\<lambda>p. prefix p s) ps"

definition endswith :: "string \<Rightarrow> string list \<Rightarrow> bool" where
  "endswith s ps = list_ex (\<lambda>p. suffix p s) ps"

subsection \<open>The enumerations and the reader object\<close>

datatype SpeechModel = BEST | NANO

datatype TranscriptFormat = TEXT | SRT | VTT

text \<open>The provider's constants \<^verbatim>\<open>aai.SpeechModel.best\<close> and \<^verbatim>\<open>aai.SpeechModel.nano\<close>.\<close>

datatype aai_SpeechModel = aai_best | aai_nano

text \<open>
  \<^verbatim>\<open>getattr(aai.SpeechModel, speech_model.value)\<close> of line 86: the member whose name is
  the value of the enumeration, \<^verbatim>\<open>"best"\<close> or \<^verbatim>\<open>"nano"\<close>.
\<close>

fun getattr_SpeechModel :: "SpeechModel \<Rightarrow> aai_SpeechModel" where
  "getattr_SpeechModel BEST = aai_best"
| "getattr_SpeechModel NANO = aai_nano"

text \<open>A Python float is passed on as it is: its 64 bits.\<close>

type_synonym pyfloat = "64 word"

text \<open>The arguments of the constructor, and their defaults (lines 37 to 56).\<close>

record init_args =
  arg_api_key :: "string option"
  arg_speech_model :: SpeechModel
  arg_language_detection :: bool
  arg_language :: "string option"
  arg_punctuate :: bool
  arg_format_text :: bool
  arg_disfluencies :: bool
  arg_filter_profanity :: bool
  arg_word_boost :: "string list option"
  arg_custom_spelling :: "(string \<times> string) list list option"
  arg_output_format :: TranscriptFormat
  arg_chars_per_caption :: int
  arg_speech_threshold :: "pyfloat option"
  arg_speaker_labels :: bool
  arg_multichannel :: bool

definition default_args :: init_args where
  "default_args =
     \<lparr> arg_api_key = None, arg_speech_model = BEST, arg_language_detection = True,
       arg_language = None, arg_punctuate = True, arg_format_text = True,
       arg_disfluencies = False, arg_filter_profanity = False, arg_word_boost = None,
       arg_custom_spelling = None, arg_output_format = TEXT, arg_chars_per_caption = 128,
       arg_speech_threshold = None, arg_speaker_labels = False, arg_multichannel = True \<rparr>"

text \<open>The attributes of the object (lines 75 to 99).\<close>

record Reader =
  api_key :: string
  speech_model :: aai_SpeechModel
  language_detection :: bool
  language :: "string option"
  punctuate :: bool
  format_text :: bool
  disfluencies :: bool
  filter_profanity :: bool
  word_boost :: "string list option"
  custom_spelling :: "(string \<times> string) list list option"
  output_format :: TranscriptFormat
  chars_per_caption :: int
  speech_threshold :: "pyfloat option"
  speaker_labels :: bool
  multichannel :: bool

text \<open>
  \<^verbatim>\<open>__init__\<close>. \<open>environ\<close> is \<^verbatim>\<open>os.environ\<close>. Line 83 copies the key into the client's
  global settings, which nothing in this file reads back.
\<close>

definition init :: "(string \<rightharpoonup> string) \<Rightarrow> init_args \<Rightarrow> py_exception + Reader" where
  "init environ a =
     (let key = py_or (arg_api_key a) (environ ''ASSEMBLYAI_API_KEY'') in
      if \<not> truthy key then
        Inl (ValueError (''AssemblyAI API key must be provided as an argument or '' @
                         ''set as environment variable '' @ quoted ''ASSEMBLYAI_API_KEY''))
      else
        Inr \<lparr> api_key = the key,
              speech_model = getattr_SpeechModel (arg_speech_model a),
              language_detection = arg_language_detection a,
              language = arg_language a,
              punctuate = arg_punctuate a,
              format_text = arg_format_text a,
              disfluencies = arg_disfluencies a,
              filter_profanity = arg_filter_profanity a,
              word_boost = arg_word_boost a,
              custom_spelling = arg_custom_spelling a,
              output_format = arg_output_format a,
              chars_per_caption = arg_chars_per_caption a,
              speech_threshold = arg_speech_threshold a,
              speaker_labels = arg_speaker_labels a,
              multichannel = arg_multichannel a \<rparr>)"

subsection \<open>The request payload\<close>

text \<open>
  The values of the dictionary \<^verbatim>\<open>config_params\<close>. The dictionary is an association
  list; \<^verbatim>\<open>d[k] = v\<close> replaces the value of a key that is there and appends a new
  key, as a Python dictionary does.
\<close>

datatype cfg_value =
    VModel aai_SpeechModel
  | VBool bool
  | VFloat "pyfloat option"
  | VStr string
  | VWords "string list"
  | VSpelling "(string \<times> string) list list"

type_synonym payload = "(string \<times> cfg_value) list"

definition dict_set :: "string \<Rightarrow> cfg_value \<Rightarrow> payload \<Rightarrow> payload" where
  "dict_set k v d = AList.update k v d"

definition has_key :: "payload \<Rightarrow> string \<Rightarrow> bool" where
  "has_key d k = (map_of d k \<noteq> None)"

text \<open>
  Lines 213 to 235. The literal of lines 213 to 225 names \<^verbatim>\<open>punctuate\<close> and
  \<^verbatim>\<open>format_text\<close> twice; the entries are written in the order of the source.
\<close>

definition config_literal :: "Reader \<Rightarrow> payload" where
  "config_literal self =
     (dict_set ''multichannel'' (VBool (multichannel self))
     (dict_set ''speaker_labels'' (VBool (speaker_labels self))
     (dict_set ''format_text'' (VBool (format_text self))
     (dict_set ''punctuate'' (VBool (punctuate self))
     (dict_set ''speech_threshold'' (VFloat (speech_threshold self))
     (dict_set ''filter_profanity'' (VBool (filter_profanity self))
     (dict_set ''disfluencies'' (VBool (disfluencies self))
     (dict_set ''format_text'' (VBool (format_text self))
     (dict_set ''punctuate'' (VBool (punctuate self))
     (dict_set ''language_detection'' (VBool (language_detection self))
     (dict_set ''speech_model'' (VModel (speech_model self)) [])))))))))))"

definition config_params :: "Reader \<Rightarrow> payload" where
  "config_params self =
     (let d0 = config_literal self;
          d1 = (if truthy (word_boost self)
                then dict_set ''word_boost'' (VWords (the (word_boost self))) d0 else d0);
          d2 = (if truthy (custom_spelling self)
                then dict_set ''custom_spelling'' (VSpelling (the (custom_spelling self))) d1
                else d1)
      in if truthy (language self) \<and> \<not> language_detection self
         then dict_set ''language'' (VStr (the (language self))) d2 else d2)"

subsection \<open>The collaborators and the world\<close>

datatype TranscriptStatus = queued | processing | completed | error

text \<open>
  The transcript object that the client returns: its status, its error message, its
  text, and the two subtitle renderers, which take the caption width and answer with a
  string or raise.
\<close>

record Transcript =
  tr_status :: TranscriptStatus
  tr_error :: "string option"
  tr_text :: "string option"
  export_subtitles_srt :: "int \<Rightarrow> py_exception + string"
  export_subtitles_vtt :: "int \<Rightarrow> py_exception + string"

record Document =
  doc_text :: string
  doc_metadata :: "(string \<times> string) list"

text \<open>What \<^verbatim>\<open>AudioSegment.from_file\<close> is given: a path, or a handle opened on a path.\<close>

datatype media_src = SrcPath string | SrcHandle string

text \<open>
  The optional \<^verbatim>\<open>fs\<close> argument: \<^verbatim>\<open>fs.open(file, "rb")\<close> raises or gives a handle.
\<close>

record AbstractFileSystem =
  fs_open :: "string \<Rightarrow> py_exception option"

text \<open>The argument \<^verbatim>\<open>file\<close>: a string, or a \<^verbatim>\<open>Path\<close>, which is kept as its \<^verbatim>\<open>str\<close>.\<close>

datatype file_arg = Str string | PathObj string

text \<open>
  The answers of the collaborators. \<open>'seg\<close> is the decoder's audio segment.
  \<open>Path_str s\<close> is \<^verbatim>\<open>str(Path(s))\<close>. \<open>tmp_audio_stem\<close> and \<open>tmp_doc_stem\<close> are the names
  that \<^verbatim>\<open>tempfile\<close> picks at lines 177 and 143, before the suffix. \<open>transcribe\<close> stands
  for lines 238 to 242: building the configuration and the transcriber and waiting for
  the service.
\<close>

record 'seg env =
  Path_str :: "string \<Rightarrow> string"
  pydub_import :: "py_exception option"
  tmp_audio_stem :: "py_exception + string"
  tmp_doc_stem :: "py_exception + string"
  from_file :: "media_src \<Rightarrow> py_exception + 'seg"
  split_to_mono :: "'seg \<Rightarrow> 'seg list"
  export :: "'seg \<Rightarrow> string \<Rightarrow> py_exception option"
  transcribe :: "payload \<Rightarrow> string \<Rightarrow> py_exception + Transcript"
  os_remove_error :: "string \<Rightarrow> py_exception option"
  FlatReader_load_data :: "string \<Rightarrow> string \<Rightarrow> py_exception + Document list"

text \<open>The calls made and the lines logged, in order.\<close>

datatype event =
    TmpCreate string
  | TmpDelete string
  | FsOpen string
  | FromFile media_src
  | Export string
  | Transcribe payload string
  | ExportSrt int
  | ExportVtt int
  | OsRemove string
  | FlatRead string
  | LogError string
  | LogWarning string

record world =
  files :: "string set"
  trace :: "event list"

definition emit :: "event \<Rightarrow> world \<Rightarrow> world" where
  "emit e w = w\<lparr>trace := trace w @ [e]\<rparr>"

text \<open>
  \<^verbatim>\<open>NamedTemporaryFile(suffix=sfx)\<close>: the name ends with the suffix, and the file is
  created only if no file has the name (\<^verbatim>\<open>tempfile\<close> opens with \<^verbatim>\<open>O_EXCL\<close>, and gives
  up with \<^verbatim>\<open>FileExistsError\<close> when it finds no free name).
\<close>

definition NamedTemporaryFile ::
  "py_exception + string \<Rightarrow> string \<Rightarrow> world \<Rightarrow> (py_exception + string) \<times> world" where
  "NamedTemporaryFile stem sfx w =
     (case stem of
        Inl e \<Rightarrow> (Inl e, w)
      | Inr s \<Rightarrow>
          (let name = s @ sfx in
           if name \<in> files w
           then (Inl (FileExistsError ''No usable temporary file name found''), w)
           else (Inr name, emit (TmpCreate name) (w\<lparr>files := insert name (files w)\<rparr>))))"

text \<open>\<^verbatim>\<open>os.remove(p)\<close>: fails when the file is not there, or when the system refuses.\<close>

definition os_remove :: "'seg env \<Rightarrow> string \<Rightarrow> world \<Rightarrow> (py_exception + unit) \<times> world" where
  "os_remove env p w =
     (let w' = emit (OsRemove p) w in
      if p \<notin> files w then (Inl (FileNotFoundError p), w')
      else (case os_remove_error env p of
              Some e \<Rightarrow> (Inl e, w')
            | None \<Rightarrow> (Inr (), w'\<lparr>files := files w' - {p}\<rparr>)))"

subsection \<open>\<^verbatim>\<open>_prepare_audio_file\<close>\<close>

definition audio_exts :: "string list" where
  "audio_exts = [''.mp3'', ''.wav'', ''.flac'', ''.m4a'', ''.ogg'']"

definition video_exts :: "string list" where
  "video_exts = [''.mp4'', ''.avi'', ''.mov'', ''.mkv'', ''.webm'']"

text \<open>
  Lines 181 to 185: the segment is decoded from a handle of \<^verbatim>\<open>fs\<close> when \<^verbatim>\<open>fs\<close> is
  given, from the path otherwise.
\<close>

definition decode_video ::
  "'seg env \<Rightarrow> world \<Rightarrow> string \<Rightarrow> AbstractFileSystem option \<Rightarrow> (py_exception + 'seg) \<times> world"
  where
  "decode_video env w file_path fs =
     (case fs of
        Some f \<Rightarrow>
          (let w1 = emit (FsOpen file_path) w in
           case fs_open f file_path of
             Some e \<Rightarrow> (Inl e, w1)
           | None \<Rightarrow> (from_file env (SrcHandle file_path), emit (FromFile (SrcHandle file_path)) w1))
      | None \<Rightarrow> (from_file env (SrcPath file_path), emit (FromFile (SrcPath file_path)) w))"

text \<open>The body of the \<^verbatim>\<open>try\<close> of lines 173 to 191.\<close>

definition extract_audio ::
  "'seg env \<Rightarrow> world \<Rightarrow> string \<Rightarrow> AbstractFileSystem option \<Rightarrow> (py_exception + string) \<times> world"
  where
  "extract_audio env w file_path fs =
     (case pydub_import env of
        Some e \<Rightarrow> (Inl e, w)
      | None \<Rightarrow>
          (case NamedTemporaryFile (tmp_audio_stem env) ''.mp3'' w of
             (Inl e, w1) \<Rightarrow> (Inl e, w1)
           | (Inr temp_audio_path, w1) \<Rightarrow>
               (case decode_video env w1 file_path fs of
                  (Inl e, w2) \<Rightarrow> (Inl e, w2)
                | (Inr video, w2) \<Rightarrow>
                    (case split_to_mono env video of
                       [] \<Rightarrow> (Inl (IndexError ''list index out of range''), w2)
                     | audio # _ \<Rightarrow>
                         (let w3 = emit (Export temp_audio_path) w2 in
                          case export env audio temp_audio_path of
                            Some e \<Rightarrow> (Inl e, w3)
                          | None \<Rightarrow>
                              (Inr temp_audio_path,
                               w3\<lparr>files := insert temp_audio_path (files w3)\<rparr>))))))"

text \<open>
  Lines 164 to 198. The two handlers of lines 192 to 196: an \<^verbatim>\<open>ImportError\<close> is
  replaced by the one of line 193, any other exception is logged and raised again.
\<close>

definition prepare_audio_file ::
  "'seg env \<Rightarrow> world \<Rightarrow> string \<Rightarrow> AbstractFileSystem option \<Rightarrow> (py_exception + string) \<times> world"
  where
  "prepare_audio_file env w file_path fs =
     (if endswith (lower file_path) audio_exts then (Inr file_path, w)
      else if endswith (lower file_path) video_exts then
        (case extract_audio env w file_path fs of
           (Inl (ImportError m), w1) \<Rightarrow>
             (Inl (ImportError (''Please install pydub: '' @ quoted ''pip install pydub'')), w1)
         | (Inl e, w1) \<Rightarrow> (Inl e, emit (LogError (''Error extracting audio: '' @ str_exc e)) w1)
         | (Inr p, w1) \<Rightarrow> (Inr p, w1))
      else (Inr file_path, w))"

subsection \<open>\<^verbatim>\<open>_transcribe_with_assemblyai\<close>\<close>

text \<open>Line 246: \<^verbatim>\<open>f"Transcription failed: {transcript.error}"\<close>.\<close>

definition error_msg :: "Transcript \<Rightarrow> string" where
  "error_msg transcript = ''Transcription failed: '' @ str_opt (tr_error transcript)"

text \<open>Lines 213 to 256.\<close>

definition transcribe_with_assemblyai ::
  "'seg env \<Rightarrow> Reader \<Rightarrow> world \<Rightarrow> string \<Rightarrow> (py_exception + string) \<times> world" where
  "transcribe_with_assemblyai env self w file_path =
     (let cfg = config_params self;
          w1 = emit (Transcribe cfg file_path) w
      in case transcribe env cfg file_path of
           Inl e \<Rightarrow> (Inl e, w1)
         | Inr transcript \<Rightarrow>
             if tr_status transcript = error then
               (Inl (PyException (error_msg transcript)),
                emit (LogError (error_msg transcript)) w1)
             else if output_format self = SRT then
               (export_subtitles_srt transcript (chars_per_caption self),
                emit (ExportSrt (chars_per_caption self)) w1)
             else if output_format self = VTT then
               (export_subtitles_vtt transcript (chars_per_caption self),
                emit (ExportVtt (chars_per_caption self)) w1)
             else (Inr (the (py_or (tr_text transcript) (Some ''''))), w1))"

subsection \<open>\<^verbatim>\<open>load_data\<close>\<close>

definition is_url :: "file_arg \<Rightarrow> bool" where
  "is_url file =
     (case file of Str s \<Rightarrow> startswith s [''http://'', ''https://''] | PathObj p \<Rightarrow> False)"

text \<open>
  \<^verbatim>\<open>str(file)\<close> once lines 119 to 126 have run: a URL is left as it is, any other
  string has become a \<^verbatim>\<open>Path\<close>.
\<close>

definition file_str :: "'seg env \<Rightarrow> file_arg \<Rightarrow> string" where
  "file_str env file =
     (case file of
        Str s \<Rightarrow> if is_url file then s else Path_str env s
      | PathObj p \<Rightarrow> p)"

text \<open>Lines 119 to 129: the path or URL handed to the service.\<close>

definition resolve_file ::
  "'seg env \<Rightarrow> world \<Rightarrow> file_arg \<Rightarrow> AbstractFileSystem option \<Rightarrow> (py_exception + string) \<times> world"
  where
  "resolve_file env w file fs =
     (if is_url file then (Inr (file_str env file), w)
      else prepare_audio_file env w (file_str env file) fs)"

text \<open>Lines 135 to 139: the clean-up, whose failure is logged and goes no further.\<close>

definition cleanup :: "'seg env \<Rightarrow> world \<Rightarrow> file_arg \<Rightarrow> string \<Rightarrow> world" where
  "cleanup env w file file_path =
     (if \<not> is_url file \<and> file_path \<noteq> file_str env file then
        (case os_remove env file_path w of
           (Inl e, w1) \<Rightarrow>
             emit (LogWarning (''Failed to remove temporary file '' @ file_path @ '': '' @ str_exc e)) w1
         | (Inr u, w1) \<Rightarrow> w1)
      else w)"

text \<open>
  Lines 141 to 148: the transcript goes through a temporary file, which is deleted when
  the \<^verbatim>\<open>with\<close> block is left, also by an exception of the \<^verbatim>\<open>FlatReader\<close>.
\<close>

definition make_documents ::
  "'seg env \<Rightarrow> world \<Rightarrow> string \<Rightarrow> (py_exception + Document list) \<times> world" where
  "make_documents env w transcript =
     (case NamedTemporaryFile (tmp_doc_stem env) [] w of
        (Inl e, w1) \<Rightarrow> (Inl e, w1)
      | (Inr name, w1) \<Rightarrow>
          (let w2 = emit (FlatRead (Path_str env name)) w1;
               w3 = emit (TmpDelete name) (w2\<lparr>files := files w2 - {name}\<rparr>)
           in (FlatReader_load_data env (Path_str env name) transcript, w3)))"

text \<open>The body of the \<^verbatim>\<open>try\<close> of lines 118 to 148.\<close>

definition load_data_try ::
  "'seg env \<Rightarrow> Reader \<Rightarrow> world \<Rightarrow> file_arg \<Rightarrow> AbstractFileSystem option
     \<Rightarrow> (py_exception + Document list) \<times> world" where
  "load_data_try env self w file fs =
     (case resolve_file env w file fs of
        (Inl e, w1) \<Rightarrow> (Inl e, w1)
      | (Inr file_path, w1) \<Rightarrow>
          (case transcribe_with_assemblyai env self w1 file_path of
             (Inl e, w2) \<Rightarrow> (Inl e, w2)
           | (Inr transcript, w2) \<Rightarrow>
               make_documents env (cleanup env w2 file file_path) transcript))"

text \<open>Lines 117 to 152: what the body raises is logged and raised again.\<close>

definition load_data ::
  "'seg env \<Rightarrow> Reader \<Rightarrow> world \<Rightarrow> file_arg \<Rightarrow> AbstractFileSystem option
     \<Rightarrow> (py_exception + Document list) \<times> world" where
  "load_data env self w file fs =
     (case load_data_try env self w file fs of
        (Inl e, w1) \<Rightarrow>
          (Inl e,
           emit (LogError (''Error transcribing file '' @ file_str env file @ '': '' @ str_exc e)) w1)
      | (Inr documents, w1) \<Rightarrow> (Inr documents, w1))"


subsection \<open>Reading the trace\<close>

text \<open>
  \<open>calls P w\<close> are the events of the trace that \<open>P\<close> selects, in order: the decoder
  calls (\<^verbatim>\<open>AudioSegment.from_file\<close>), the mp3 exports, the \<^verbatim>\<open>os.remove\<close> calls and the
  calls of a subtitle renderer.
\<close>

fun is_decode :: "event \<Rightarrow> bool" where
  "is_decode (FromFile s) = True"
| "is_decode e = False"

fun is_export :: "event \<Rightarrow> bool" where
  "is_export (Export s) = True"
| "is_export e = False"

fun is_remove :: "event \<Rightarrow> bool" where
  "is_remove (OsRemove s) = True"
| "is_remove e = False"

fun is_render :: "event \<Rightarrow> bool" where
  "is_render (ExportSrt n) = True"
| "is_render (ExportVtt n) = True"
| "is_render e = False"

definition calls :: "(event \<Rightarrow> bool) \<Rightarrow> world \<Rightarrow> event list" where
  "calls P w = filter P (trace w)"

subsection \<open>Example values\<close>

text \<open>
  The reader that the \<^verbatim>\<open>__main__\<close> block of the file builds (lines 263 to 270), a
  transcript that succeeded and one that failed, collaborators that all answer, the
  same with a service that reports an error, and a disk with a video and an audio file.
  An audio segment is the list of its channels.
\<close>

definition main_args :: init_args where
  "main_args = default_args\<lparr> arg_format_text := True, arg_punctuate := True,
      arg_speaker_labels := True, arg_multichannel := False, arg_output_format := SRT,
      arg_chars_per_caption := 256 \<rparr>"

definition main_reader :: Reader where
  "main_reader = \<lparr> api_key = ''secret'', speech_model = aai_best, language_detection = True,
       language = None, punctuate = True, format_text = True,
       disfluencies = False, filter_profanity = False, word_boost = None,
       custom_spelling = None, output_format = SRT, chars_per_caption = 256,
       speech_threshold = None, speaker_labels = True, multichannel = False \<rparr>"

definition ok_transcript :: Transcript where
  "ok_transcript = \<lparr> tr_status = completed, tr_error = None, tr_text = Some ''hello world'',
      export_subtitles_srt = (\<lambda>n. Inr (if n < 11 then ''1 hello 2 world'' else ''1 hello world'')),
      export_subtitles_vtt = (\<lambda>n. Inr (if n < 11 then ''WEBVTT hello / world'' else ''WEBVTT hello world'')) \<rparr>"

definition failed_transcript :: Transcript where
  "failed_transcript = \<lparr> tr_status = error, tr_error = Some ''File does not contain audio'',
      tr_text = None,
      export_subtitles_srt = (\<lambda>n. Inl (LibraryError ''no transcript'')),
      export_subtitles_vtt = (\<lambda>n. Inl (LibraryError ''no transcript'')) \<rparr>"

definition good_env :: "string list env" where
  "good_env = \<lparr> Path_str = (\<lambda>s. s), pydub_import = None,
      tmp_audio_stem = Inr ''/tmp/tmpk3x9'', tmp_doc_stem = Inr ''/tmp/tmpz7q2'',
      from_file = (\<lambda>src. Inr [''left'', ''right'']), split_to_mono = map (\<lambda>c. [c]),
      export = (\<lambda>a p. None), transcribe = (\<lambda>cfg p. Inr ok_transcript),
      os_remove_error = (\<lambda>p. None),
      FlatReader_load_data = (\<lambda>name txt. Inr [\<lparr>doc_text = txt, doc_metadata = [(''filename'', name)]\<rparr>]) \<rparr>"

definition failing_env :: "string list env" where
  "failing_env = good_env\<lparr> transcribe := (\<lambda>cfg p. Inr failed_transcript) \<rparr>"

definition disk0 :: world where
  "disk0 = \<lparr> files = {''talk.mp4'', ''univer_admin.ogg''}, trace = [] \<rparr>"


section \<open>Properties\<close>

subsection \<open>Unfolding the definitions on concrete values\<close>

lemmas ex_defs = main_reader_def ok_transcript_def failed_transcript_def good_env_def failing_env_def disk0_def

lemmas str_defs = lower_def lower_char_def endswith_def startswith_def audio_exts_def video_exts_def suffix_to_prefix

lemmas run_defs = load_data_def load_data_try_def resolve_file_def file_str_def is_url_def
  prepare_audio_file_def extract_audio_def decode_video_def NamedTemporaryFile_def
  transcribe_with_assemblyai_def error_msg_def str_opt_def cleanup_def os_remove_def make_documents_def
  emit_def Let_def py_or_def truthy_def


subsection \<open>The trace and the files under each step\<close>

lemma calls_emit: "calls P (emit e w) = calls P w @ (if P e then [e] else [])"
  by (simp add: calls_def emit_def)

lemma files_emit: "files (emit e w) = files w"
  by (simp add: emit_def)

lemma calls_files_update: "calls P (w\<lparr>files := F\<rparr>) = calls P w"
  by (simp add: calls_def)


text \<open>
  No path ends with an audio and with a video extension: two suffixes of one string
  that have the same length are equal, and their last characters are the same.
\<close>

lemma two_suffixes:
  "suffix a s \<Longrightarrow> suffix b s \<Longrightarrow>
     (length a = length b \<longrightarrow> a = b) \<and> (a \<noteq> [] \<longrightarrow> b \<noteq> [] \<longrightarrow> last a = last b)"
proof -
  assume a: "suffix a s" and b: "suffix b s"
  have "a \<noteq> [] \<Longrightarrow> last s = last a"
    using a by (auto simp: suffix_def)
  moreover have "b \<noteq> [] \<Longrightarrow> last s = last b"
    using b by (auto simp: suffix_def)
  moreover have "length a = length b \<Longrightarrow> a = b"
    using a b by (auto simp: suffix_def)
  ultimately show ?thesis by auto
qed

lemma exts_disjoint: "endswith s video_exts \<Longrightarrow> \<not> endswith s audio_exts"
  unfolding endswith_def video_exts_def audio_exts_def
  by (auto dest: two_suffixes)

lemma lower_char_simps: "lower_char CHR ''.'' = CHR ''.''" "lower_char CHR ''m'' = CHR ''m''"
   "lower_char CHR ''p'' = CHR ''p''" "lower_char CHR ''3'' = CHR ''3''"
  by (simp_all add: lower_char_def)

lemma tmp_is_audio: "endswith (lower (s @ ''.mp3'')) audio_exts"
  by (simp add: endswith_def audio_exts_def lower_def lower_char_simps suffix_def)


text \<open>What a temporary file, the decoder and the extraction leave behind.\<close>

lemma NamedTemporaryFile_Inr:
  assumes "NamedTemporaryFile stem sfx w = (Inr n, w')"
  shows "\<exists>s. stem = Inr s \<and> n = s @ sfx" and "n \<notin> files w"
    and "w' = emit (TmpCreate n) (w\<lparr>files := insert n (files w)\<rparr>)"
  using assms by (auto simp: NamedTemporaryFile_def Let_def split: sum.splits if_splits)

lemma NamedTemporaryFile_Inl:
  "NamedTemporaryFile stem sfx w = (Inl e, w') \<Longrightarrow> w' = w"
  by (auto simp: NamedTemporaryFile_def Let_def split: sum.splits if_splits)

lemma decode_video_frame:
  assumes "decode_video env w p fs = (r, w')"
  shows "files w' = files w" and "calls is_remove w' = calls is_remove w"
    and "calls is_export w' = calls is_export w"
    and "calls is_render w' = calls is_render w"
    and "length (calls is_decode w') \<le> length (calls is_decode w) + 1"
    and "(\<exists>v. r = Inr v) \<Longrightarrow> length (calls is_decode w') = length (calls is_decode w) + 1"
  using assms
  by (auto simp: decode_video_def Let_def calls_emit files_emit split: option.splits)

lemma extract_audio_Inr:
  assumes "extract_audio env w p fs = (Inr q, w')"
  shows "\<exists>s. tmp_audio_stem env = Inr s \<and> q = s @ ''.mp3''" and "q \<notin> files w"
    and "files w' = insert q (files w)"
    and "calls is_remove w' = calls is_remove w"
    and "calls is_render w' = calls is_render w"
    and "length (calls is_decode w') = length (calls is_decode w) + 1"
    and "calls is_export w' = calls is_export w @ [Export q]"
proof -
  from assms obtain w1 where t: "NamedTemporaryFile (tmp_audio_stem env) ''.mp3'' w = (Inr q, w1)"
    by (auto simp: extract_audio_def Let_def split: option.splits prod.splits sum.splits list.splits)
  from assms t obtain v w2 a as where d: "decode_video env w1 p fs = (Inr v, w2)"
      and "split_to_mono env v = a # as"
      and w': "w' = (emit (Export q) w2)\<lparr>files := insert q (files (emit (Export q) w2))\<rparr>"
    by (auto simp: extract_audio_def Let_def split: option.splits prod.splits sum.splits list.splits)
  note n = NamedTemporaryFile_Inr [OF t]
  note f = decode_video_frame [OF d]
  show "\<exists>s. tmp_audio_stem env = Inr s \<and> q = s @ ''.mp3''" by (rule n(1))
  show "q \<notin> files w" by (rule n(2))
  show "files w' = insert q (files w)" using f(1) by (simp add: w' n(3) files_emit)
  show "calls is_remove w' = calls is_remove w"
    using f(2) by (simp add: w' n(3) calls_emit calls_files_update)
  show "calls is_render w' = calls is_render w"
    using f(4) by (simp add: w' n(3) calls_emit calls_files_update)
  show "length (calls is_decode w') = length (calls is_decode w) + 1"
    using f(6) by (simp add: w' n(3) calls_emit calls_files_update)
  show "calls is_export w' = calls is_export w @ [Export q]"
    using f(3) by (simp add: w' n(3) calls_emit calls_files_update)
qed

lemma extract_audio_Inl:
  assumes "extract_audio env w p fs = (Inl e, w')"
  shows "files w \<subseteq> files w'" and "calls is_remove w' = calls is_remove w"
    and "calls is_render w' = calls is_render w"
    and "length (calls is_decode w') \<le> length (calls is_decode w) + 1"
proof -
  have "files w \<subseteq> files w' \<and> calls is_remove w' = calls is_remove w
        \<and> calls is_render w' = calls is_render w
        \<and> length (calls is_decode w') \<le> length (calls is_decode w) + 1"
  proof (cases "NamedTemporaryFile (tmp_audio_stem env) ''.mp3'' w")
    case (Pair r w1)
    show ?thesis
    proof (cases r)
      case (Inl e1)
      with Pair have "w1 = w" by (simp add: NamedTemporaryFile_Inl)
      with assms Pair Inl have "w' = w"
        by (auto simp: extract_audio_def split: option.splits)
      then show ?thesis by simp
    next
      case (Inr n)
      note t = NamedTemporaryFile_Inr [OF Pair [unfolded Inr]]
      obtain r2 w2 where d: "decode_video env w1 p fs = (r2, w2)" by (cases "decode_video env w1 p fs")
      note f = decode_video_frame [OF d]
      from assms Pair Inr d have "w' = w \<or> w' = w2 \<or> w' = emit (Export n) w2"
        by (auto simp: extract_audio_def Let_def split: option.splits sum.splits list.splits)
      then show ?thesis
        using f(1,2,4,5) by (auto simp: t(3) calls_emit calls_files_update files_emit)
    qed
  qed
  then show "files w \<subseteq> files w'" and "calls is_remove w' = calls is_remove w"
    and "calls is_render w' = calls is_render w"
    and "length (calls is_decode w') \<le> length (calls is_decode w) + 1" by simp_all
qed


text \<open>\<^verbatim>\<open>_prepare_audio_file\<close> on a video path is the extraction under the two handlers.\<close>

lemma prepare_passthrough:
  "endswith (lower p) audio_exts \<or> \<not> endswith (lower p) video_exts \<Longrightarrow>
     prepare_audio_file env w p fs = (Inr p, w)"
  by (auto simp: prepare_audio_file_def)

lemma prepare_video:
  assumes "endswith (lower p) video_exts"
  shows "prepare_audio_file env w p fs =
           (case extract_audio env w p fs of
              (Inl (ImportError m), w1) \<Rightarrow>
                (Inl (ImportError (''Please install pydub: '' @ quoted ''pip install pydub'')), w1)
            | (Inl e, w1) \<Rightarrow> (Inl e, emit (LogError (''Error extracting audio: '' @ str_exc e)) w1)
            | (Inr q, w1) \<Rightarrow> (Inr q, w1))"
  using assms exts_disjoint [OF assms] by (simp add: prepare_audio_file_def)

lemma prepare_video_Inr:
  assumes "endswith (lower p) video_exts" and "prepare_audio_file env w p fs = (Inr q, w')"
  shows "extract_audio env w p fs = (Inr q, w')"
  using assms(2) unfolding prepare_video [OF assms(1)]
  by (auto split: prod.splits sum.splits py_exception.splits)

lemma prepare_video_Inl:
  assumes "endswith (lower p) video_exts" and "prepare_audio_file env w p fs = (Inl e, w')"
  shows "\<exists>e1 w1. extract_audio env w p fs = (Inl e1, w1) \<and>
           (w' = w1 \<or> (\<exists>m. w' = emit (LogError m) w1))"
  using assms(2) unfolding prepare_video [OF assms(1)]
  by (auto split: prod.splits sum.splits py_exception.splits)


text \<open>The steps of \<^verbatim>\<open>load_data\<close>, one by one.\<close>

lemma transcribe_frame:
  assumes "transcribe_with_assemblyai env self w p = (r, w')"
  shows "files w' = files w" and "calls is_remove w' = calls is_remove w"
  using assms
  by (auto simp: transcribe_with_assemblyai_def Let_def calls_emit files_emit
           split: sum.splits if_splits)




lemma make_documents_frame:
  assumes "make_documents env w t = (r, w')"
  shows "files w' = files w" and "calls is_remove w' = calls is_remove w"
proof -
  have "files w' = files w \<and> calls is_remove w' = calls is_remove w"
  proof (cases "NamedTemporaryFile (tmp_doc_stem env) [] w")
    case (Pair r1 w1)
    show ?thesis
    proof (cases r1)
      case (Inl e)
      with Pair assms have "w' = w1" by (simp add: make_documents_def)
      moreover from Pair Inl have "w1 = w" by (auto dest: NamedTemporaryFile_Inl)
      ultimately show ?thesis by simp
    next
      case (Inr n)
      note t = NamedTemporaryFile_Inr [OF Pair [unfolded Inr]]
      from Pair Inr assms
      have "w' = emit (TmpDelete n) ((emit (FlatRead (Path_str env n)) w1)
                \<lparr>files := files (emit (FlatRead (Path_str env n)) w1) - {n}\<rparr>)"
        by (simp add: make_documents_def Let_def)
      then show ?thesis using t(2) by (simp add: t(3) files_emit calls_emit calls_files_update)
    qed
  qed
  then show "files w' = files w" and "calls is_remove w' = calls is_remove w" by simp_all
qed

lemma resolve_file_frame:
  assumes "resolve_file env w file fs = (r, w1)"
  shows "files w \<subseteq> files w1" and "calls is_remove w1 = calls is_remove w"
    and "\<And>q. r = Inr q \<Longrightarrow> q \<noteq> file_str env file \<Longrightarrow> q \<notin> files w"
    and "is_url file \<or> \<not> endswith (lower (file_str env file)) video_exts \<Longrightarrow>
           r = Inr (file_str env file) \<and> w1 = w"
proof -
  let ?p = "file_str env file"
  have "files w \<subseteq> files w1 \<and> calls is_remove w1 = calls is_remove w
       \<and> (\<forall>q. r = Inr q \<longrightarrow> q \<noteq> ?p \<longrightarrow> q \<notin> files w)
       \<and> (is_url file \<or> \<not> endswith (lower ?p) video_exts \<longrightarrow> r = Inr ?p \<and> w1 = w)"
  proof (cases "is_url file \<or> \<not> endswith (lower ?p) video_exts")
    case True
    then have "resolve_file env w file fs = (Inr ?p, w)"
      by (auto simp: resolve_file_def prepare_passthrough)
    with assms show ?thesis by auto
  next
    case False
    then have v: "endswith (lower ?p) video_exts" and p: "prepare_audio_file env w ?p fs = (r, w1)"
      using assms by (auto simp: resolve_file_def)
    show ?thesis
    proof (cases r)
      case (Inl e)
      from prepare_video_Inl [OF v p [unfolded Inl]] obtain e1 w0 where
        x: "extract_audio env w ?p fs = (Inl e1, w0)" and
        w: "w1 = w0 \<or> (\<exists>m. w1 = emit (LogError m) w0)" by blast
      from extract_audio_Inl(1,2) [OF x] w Inl False show ?thesis
        by (auto simp: files_emit calls_emit)
    next
      case (Inr q)
      note x = extract_audio_Inr [OF prepare_video_Inr [OF v p [unfolded Inr]]]
      from x(2,3,4) Inr False show ?thesis by auto
    qed
  qed
  then show "files w \<subseteq> files w1" and "calls is_remove w1 = calls is_remove w"
    and "\<And>q. r = Inr q \<Longrightarrow> q \<noteq> file_str env file \<Longrightarrow> q \<notin> files w"
    and "is_url file \<or> \<not> endswith (lower (file_str env file)) video_exts \<Longrightarrow>
           r = Inr (file_str env file) \<and> w1 = w"
    by simp_all
qed

lemma resolve_file_render:
  assumes "resolve_file env w file fs = (r, w1)"
  shows "calls is_render w1 = calls is_render w"
proof (cases "is_url file \<or> \<not> endswith (lower (file_str env file)) video_exts")
  case True
  from resolve_file_frame(4) [OF assms True] show ?thesis by simp
next
  case False
  then have v: "endswith (lower (file_str env file)) video_exts"
    and p: "prepare_audio_file env w (file_str env file) fs = (r, w1)"
    using assms by (auto simp: resolve_file_def)
  show ?thesis
  proof (cases r)
    case (Inl e)
    from prepare_video_Inl [OF v p [unfolded Inl]] obtain e1 w0 where
      x: "extract_audio env w (file_str env file) fs = (Inl e1, w0)" and
      w: "w1 = w0 \<or> (\<exists>m. w1 = emit (LogError m) w0)" by blast
    from extract_audio_Inl(3) [OF x] w show ?thesis by (auto simp: calls_emit)
  next
    case (Inr q)
    from extract_audio_Inr(5) [OF prepare_video_Inr [OF v p [unfolded Inr]]] show ?thesis .
  qed
qed



lemma load_data_files:
  "load_data_try env self w file fs = (r, w1) \<Longrightarrow>
     fst (load_data env self w file fs) = r \<and> files (snd (load_data env self w file fs)) = files w1"
  by (cases r) (simp_all add: load_data_def files_emit)


text \<open>The keys of the payload.\<close>

lemma has_key_dict_set: "has_key (dict_set k v d) k' \<longleftrightarrow> k' = k \<or> has_key d k'"
  by (simp add: has_key_def dict_set_def update_conv')

lemma map_of_dict_set: "map_of (dict_set k v d) = (map_of d)(k \<mapsto> v)"
  by (simp add: dict_set_def update_conv')

lemma has_key_literal:
  "has_key (config_literal self) k \<longleftrightarrow>
     k \<in> {''speech_model'', ''language_detection'', ''punctuate'', ''format_text'',
          ''disfluencies'', ''filter_profanity'', ''speech_threshold'', ''speaker_labels'',
          ''multichannel''}"
  unfolding config_literal_def has_key_dict_set by (auto simp: has_key_def)

lemma speech_threshold_literal:
  "map_of (config_literal self) ''speech_threshold'' = Some (VFloat (speech_threshold self))"
  by (simp add: config_literal_def map_of_dict_set)


subsection \<open>The request payload\<close>

text \<open>
  Claim C1. The payload has the key \<^verbatim>\<open>language\<close> exactly when \<^verbatim>\<open>language\<close> is set and
  \<^verbatim>\<open>language_detection\<close> is false. Line 234 tests the truth value of \<^verbatim>\<open>self.language\<close>,
  so a language that is set is a string that is not empty. With detection on there is
  no such key whatever the language is; with detection off and the language
  \<^verbatim>\<open>"en"\<close> the payload holds \<^verbatim>\<open>language="en"\<close>.
\<close>

theorem language_key:
  "(has_key (config_params self) ''language'' \<longleftrightarrow>
      (\<exists>l. language self = Some l \<and> l \<noteq> []) \<and> \<not> language_detection self)
   \<and> (language_detection self \<longrightarrow> \<not> has_key (config_params self) ''language'')
   \<and> (\<not> language_detection self \<and> language self = Some ''en'' \<longrightarrow>
        map_of (config_params self) ''language'' = Some (VStr ''en''))"
  by (auto simp: config_params_def Let_def has_key_dict_set has_key_literal map_of_dict_set truthy_def
           split: option.splits)


text \<open>
  With the language \<^verbatim>\<open>"en"\<close>, the reader of the \<^verbatim>\<open>__main__\<close> block (detection on) sends
  no language, and the same reader with detection off sends it.
\<close>

theorem language_key_witness:
  "\<not> has_key (config_params (main_reader\<lparr>language := Some ''en''\<rparr>)) ''language'' \<and>
   map_of (config_params (main_reader\<lparr>language_detection := False, language := Some ''en''\<rparr>))
     ''language'' = Some (VStr ''en'')"
  using language_key [of "main_reader\<lparr>language := Some ''en''\<rparr>"]
        language_key [of "main_reader\<lparr>language_detection := False, language := Some ''en''\<rparr>"]
  by (simp add: main_reader_def)

text \<open>
  Claim C7. The payload has the key \<^verbatim>\<open>word_boost\<close> exactly when the list of boosted
  words is there and not empty, the key \<^verbatim>\<open>custom_spelling\<close> exactly when the list of
  spellings is there and not empty, and it always has the key \<^verbatim>\<open>speech_threshold\<close>,
  whose value is the threshold of the reader, which may be \<^verbatim>\<open>None\<close>.
\<close>

theorem optional_keys:
  "(has_key (config_params self) ''word_boost'' \<longleftrightarrow>
      (\<exists>ws. word_boost self = Some ws \<and> ws \<noteq> []))
   \<and> (has_key (config_params self) ''custom_spelling'' \<longleftrightarrow>
      (\<exists>cs. custom_spelling self = Some cs \<and> cs \<noteq> []))
   \<and> map_of (config_params self) ''speech_threshold'' = Some (VFloat (speech_threshold self))"
  by (auto simp: config_params_def Let_def has_key_dict_set has_key_literal map_of_dict_set truthy_def
        speech_threshold_literal split: option.splits)

theorem optional_keys_witness:
  "has_key (config_params (main_reader\<lparr>word_boost := Some [''AssemblyAI'']\<rparr>)) ''word_boost'' \<and>
   \<not> has_key (config_params (main_reader\<lparr>word_boost := Some []\<rparr>)) ''word_boost'' \<and>
   \<not> has_key (config_params main_reader) ''custom_spelling'' \<and>
   map_of (config_params main_reader) ''speech_threshold'' = Some (VFloat None)"
  using optional_keys [of "main_reader\<lparr>word_boost := Some [''AssemblyAI'']\<rparr>"]
        optional_keys [of "main_reader\<lparr>word_boost := Some []\<rparr>"]
        optional_keys [of main_reader]
  by (simp add: main_reader_def)


subsection \<open>The credential\<close>

text \<open>
  Claim C4. The constructor takes the explicit \<^verbatim>\<open>api_key\<close> when it holds a credential
  (a string that is not empty), whatever the environment says; otherwise it takes the
  value of \<^verbatim>\<open>ASSEMBLYAI_API_KEY\<close> in the environment when that holds one; and when
  neither does it raises the \<^verbatim>\<open>ValueError\<close> of line 77, which is the error that the
  specification calls \<^verbatim>\<open>ConfigurationError\<close>. With a credential from either source the
  construction succeeds.
\<close>

theorem credential_resolution:
  "(\<forall>k. arg_api_key a = Some k \<and> k \<noteq> [] \<longrightarrow> (\<exists>r. init environ a = Inr r \<and> api_key r = k))
   \<and> (\<forall>k. (arg_api_key a = None \<or> arg_api_key a = Some []) \<and>
          environ ''ASSEMBLYAI_API_KEY'' = Some k \<and> k \<noteq> [] \<longrightarrow>
          (\<exists>r. init environ a = Inr r \<and> api_key r = k))
   \<and> ((arg_api_key a = None \<or> arg_api_key a = Some []) \<and>
       (environ ''ASSEMBLYAI_API_KEY'' = None \<or> environ ''ASSEMBLYAI_API_KEY'' = Some []) \<longrightarrow>
       (\<exists>m. init environ a = Inl (ValueError m)))"
  by (auto simp: init_def Let_def py_or_def truthy_def split: option.splits)

theorem credential_resolution_witness:
  "(\<exists>r. init [''ASSEMBLYAI_API_KEY'' \<mapsto> ''from-env''] (main_args\<lparr>arg_api_key := Some ''explicit''\<rparr>) = Inr r
        \<and> api_key r = ''explicit'') \<and>
   (\<exists>r. init [''ASSEMBLYAI_API_KEY'' \<mapsto> ''from-env''] main_args = Inr r \<and> api_key r = ''from-env'') \<and>
   (\<exists>m. init Map.empty main_args = Inl (ValueError m))"
  using credential_resolution [of "main_args\<lparr>arg_api_key := Some ''explicit''\<rparr>"
          "[''ASSEMBLYAI_API_KEY'' \<mapsto> ''from-env'']"]
        credential_resolution [of main_args "[''ASSEMBLYAI_API_KEY'' \<mapsto> ''from-env'']"]
        credential_resolution [of main_args Map.empty]
  by (simp add: main_args_def default_args_def)


subsection \<open>Preparing the audio file\<close>






subsection \<open>The answer of the service\<close>

text \<open>
  Claim C2. When the call reaches the service with the path \<open>p\<close> and the service
  answers with the status \<^verbatim>\<open>error\<close>, both \<^verbatim>\<open>_transcribe_with_assemblyai\<close> and
  \<^verbatim>\<open>load_data\<close> raise the \<^verbatim>\<open>Exception\<close> of line 248, which is the error that the
  specification calls \<^verbatim>\<open>TranscriptionError\<close>. Its message is
  \<^verbatim>\<open>Transcription failed:\<close> followed by the message of the provider. No document is
  returned, and the trace shows that after the request only the two log lines were
  written: no subtitle renderer was called.
\<close>

theorem remote_error_raises:
  assumes "resolve_file env w file fs = (Inr p, w1)"
    and "transcribe env (config_params self) p = Inr t"
    and "tr_status t = error"
  shows "transcribe_with_assemblyai env self w1 p =
           (Inl (PyException (error_msg t)),
            emit (LogError (error_msg t)) (emit (Transcribe (config_params self) p) w1))
         \<and> load_data env self w file fs =
           (Inl (PyException (error_msg t)),
            emit (LogError (''Error transcribing file '' @ file_str env file @ '': '' @ error_msg t))
              (emit (LogError (error_msg t)) (emit (Transcribe (config_params self) p) w1)))
         \<and> calls is_render (snd (load_data env self w file fs)) = calls is_render w
         \<and> (\<forall>m. tr_error t = Some m \<longrightarrow> error_msg t = ''Transcription failed: '' @ m)"
proof -
  have a: "transcribe_with_assemblyai env self w1 p =
           (Inl (PyException (error_msg t)),
            emit (LogError (error_msg t)) (emit (Transcribe (config_params self) p) w1))"
    using assms(2,3) by (simp add: transcribe_with_assemblyai_def Let_def)
  have b: "load_data env self w file fs =
           (Inl (PyException (error_msg t)),
            emit (LogError (''Error transcribing file '' @ file_str env file @ '': '' @ error_msg t))
              (emit (LogError (error_msg t)) (emit (Transcribe (config_params self) p) w1)))"
    using assms(1) a by (simp add: load_data_def load_data_try_def)
  have c: "calls is_render (snd (load_data env self w file fs)) = calls is_render w"
    using resolve_file_render [OF assms(1)] by (simp add: b calls_emit)
  have d: "\<forall>m. tr_error t = Some m \<longrightarrow> error_msg t = ''Transcription failed: '' @ m"
    by (simp add: error_msg_def str_opt_def)
  from a b c d show ?thesis by blast
qed

theorem remote_error_raises_witness:
  "resolve_file failing_env disk0 (Str ''https://host/clip.mp3'') None
       = (Inr ''https://host/clip.mp3'', disk0) \<and>
   transcribe failing_env (config_params main_reader) ''https://host/clip.mp3'' = Inr failed_transcript \<and>
   tr_status failed_transcript = error \<and>
   fst (load_data failing_env main_reader disk0 (Str ''https://host/clip.mp3'') None)
       = Inl (PyException ''Transcription failed: File does not contain audio'') \<and>
   calls is_render (snd (load_data failing_env main_reader disk0 (Str ''https://host/clip.mp3'') None)) = []"
proof -
  have r: "resolve_file failing_env disk0 (Str ''https://host/clip.mp3'') None
       = (Inr ''https://host/clip.mp3'', disk0)"
    by (simp add: resolve_file_def is_url_def file_str_def startswith_def)
  have t: "transcribe failing_env (config_params main_reader) ''https://host/clip.mp3'' = Inr failed_transcript"
    by (simp add: failing_env_def good_env_def)
  have s: "tr_status failed_transcript = error" by (simp add: failed_transcript_def)
  have m: "error_msg failed_transcript = ''Transcription failed: File does not contain audio''"
    by (simp add: error_msg_def str_opt_def failed_transcript_def)
  have c: "calls is_render disk0 = []" by (simp add: calls_def disk0_def)
  note th = remote_error_raises [OF r t s]
  from th have f: "fst (load_data failing_env main_reader disk0 (Str ''https://host/clip.mp3'') None)
       = Inl (PyException (error_msg failed_transcript))" by simp
  from th have g: "calls is_render
       (snd (load_data failing_env main_reader disk0 (Str ''https://host/clip.mp3'') None))
       = calls is_render disk0" by blast
  from r t s f g show ?thesis by (simp only: m c simp_thms)
qed

text \<open>
  Claim C8. When the service answers without the status \<^verbatim>\<open>error\<close> and the format is
  \<^verbatim>\<open>text\<close>, the result is the text of the transcript, and the empty string when the
  transcript has no text; it is a string in both cases. No renderer is called.
\<close>

theorem text_output:
  assumes "transcribe env (config_params self) p = Inr t"
    and "tr_status t \<noteq> error"
    and "output_format self = TEXT"
  shows "transcribe_with_assemblyai env self w p =
           (Inr (case tr_text t of None \<Rightarrow> [] | Some s \<Rightarrow> s),
            emit (Transcribe (config_params self) p) w)"
  using assms
  by (simp add: transcribe_with_assemblyai_def Let_def py_or_def truthy_def split: option.splits)

theorem text_output_witness:
  "transcribe good_env (config_params (main_reader\<lparr>output_format := TEXT\<rparr>)) ''univer_admin.ogg''
      = Inr ok_transcript \<and>
   tr_status ok_transcript \<noteq> error \<and> output_format (main_reader\<lparr>output_format := TEXT\<rparr>) = TEXT \<and>
   fst (transcribe_with_assemblyai good_env (main_reader\<lparr>output_format := TEXT\<rparr>) disk0 ''univer_admin.ogg'')
      = Inr ''hello world'' \<and>
   fst (transcribe_with_assemblyai
          (good_env\<lparr>transcribe := (\<lambda>cfg p. Inr (ok_transcript\<lparr>tr_text := None\<rparr>))\<rparr>)
          (main_reader\<lparr>output_format := TEXT\<rparr>) disk0 ''silence.wav'') = Inr []"
proof -
  let ?self = "main_reader\<lparr>output_format := TEXT\<rparr>"
  let ?env = "good_env\<lparr>transcribe := (\<lambda>cfg p. Inr (ok_transcript\<lparr>tr_text := None\<rparr>))\<rparr>"
  have t: "transcribe good_env (config_params ?self) ''univer_admin.ogg'' = Inr ok_transcript"
    by (simp add: good_env_def)
  have s: "tr_status ok_transcript \<noteq> error" by (simp add: ok_transcript_def)
  have f: "output_format ?self = TEXT" by simp
  have t': "transcribe ?env (config_params ?self) ''silence.wav'' = Inr (ok_transcript\<lparr>tr_text := None\<rparr>)"
    by simp
  have s': "tr_status (ok_transcript\<lparr>tr_text := None\<rparr>) \<noteq> error" by (simp add: ok_transcript_def)
  from text_output [OF t s f, of disk0] text_output [OF t' s' f, of disk0] t s f
  show ?thesis by (simp add: ok_transcript_def)
qed

text \<open>
  Claim C9. When the service answers without the status \<^verbatim>\<open>error\<close> and the format is
  \<^verbatim>\<open>srt\<close> (or \<^verbatim>\<open>vtt\<close>), the SRT (or VTT) renderer is called once, with the
  \<^verbatim>\<open>chars_per_caption\<close> of the reader, and what it answers is the result as it is.
\<close>

theorem subtitle_output:
  assumes "transcribe env (config_params self) p = Inr t"
    and "tr_status t \<noteq> error"
  shows "(output_format self = SRT \<longrightarrow>
            transcribe_with_assemblyai env self w p =
              (export_subtitles_srt t (chars_per_caption self),
               emit (ExportSrt (chars_per_caption self)) (emit (Transcribe (config_params self) p) w))
            \<and> calls is_render (snd (transcribe_with_assemblyai env self w p)) =
                calls is_render w @ [ExportSrt (chars_per_caption self)])
       \<and> (output_format self = VTT \<longrightarrow>
            transcribe_with_assemblyai env self w p =
              (export_subtitles_vtt t (chars_per_caption self),
               emit (ExportVtt (chars_per_caption self)) (emit (Transcribe (config_params self) p) w))
            \<and> calls is_render (snd (transcribe_with_assemblyai env self w p)) =
                calls is_render w @ [ExportVtt (chars_per_caption self)])"
  using assms
  by (simp add: transcribe_with_assemblyai_def Let_def calls_emit)

theorem subtitle_output_witness:
  "transcribe good_env (config_params main_reader) ''univer_admin.ogg'' = Inr ok_transcript \<and>
   tr_status ok_transcript \<noteq> error \<and> output_format main_reader = SRT \<and>
   chars_per_caption main_reader = 256 \<and>
   fst (transcribe_with_assemblyai good_env main_reader disk0 ''univer_admin.ogg'')
      = export_subtitles_srt ok_transcript 256 \<and>
   calls is_render (snd (transcribe_with_assemblyai good_env main_reader disk0 ''univer_admin.ogg''))
      = [ExportSrt 256] \<and>
   output_format (main_reader\<lparr>output_format := VTT\<rparr>) = VTT \<and>
   calls is_render (snd (transcribe_with_assemblyai good_env (main_reader\<lparr>output_format := VTT\<rparr>)
        disk0 ''univer_admin.ogg'')) = [ExportVtt 256]"
proof -
  let ?vtt = "main_reader\<lparr>output_format := VTT\<rparr>"
  have t: "transcribe good_env (config_params main_reader) ''univer_admin.ogg'' = Inr ok_transcript"
    and t': "transcribe good_env (config_params ?vtt) ''univer_admin.ogg'' = Inr ok_transcript"
    by (simp_all add: good_env_def)
  have s: "tr_status ok_transcript \<noteq> error" by (simp add: ok_transcript_def)
  have f: "output_format main_reader = SRT" "chars_per_caption main_reader = 256"
    "output_format ?vtt = VTT" "chars_per_caption ?vtt = 256"
    by (simp_all add: main_reader_def)
  have c: "calls is_render disk0 = []" by (simp add: calls_def disk0_def)
  from subtitle_output [OF t s, of disk0] subtitle_output [OF t' s, of disk0] t s f c
  show ?thesis by (simp add: calls_emit)
qed


subsection \<open>The files on disk\<close>




text \<open>
  The life of the temporary audio file. When the service answers and \<^verbatim>\<open>os.remove\<close>
  does not fail, the file is gone after the call. When \<^verbatim>\<open>_transcribe_with_assemblyai\<close>
  raises, line 137 is not reached and the file stays: the clean-up is not in a
  \<^verbatim>\<open>finally\<close> block.
\<close>

lemma temp_file_removed_on_success:
  assumes "\<not> is_url file" and "endswith (lower (file_str env file)) video_exts"
    and "prepare_audio_file env w (file_str env file) fs = (Inr q, w1)"
    and "transcribe_with_assemblyai env self w1 q = (Inr t, w2)"
    and "os_remove_error env q = None"
  shows "q \<notin> files (snd (load_data env self w file fs))"
proof -
  note x = extract_audio_Inr [OF prepare_video_Inr [OF assms(2,3)]]
  from x(1) have "endswith (lower q) audio_exts" by (auto simp: tmp_is_audio)
  with exts_disjoint [OF assms(2)] have ne: "q \<noteq> file_str env file" by auto
  have "q \<in> files w2" using transcribe_frame(1) [OF assms(4)] x(3) by simp
  then have "os_remove env q w2 = (Inr (), (emit (OsRemove q) w2)\<lparr>files := files (emit (OsRemove q) w2) - {q}\<rparr>)"
    using assms(5) by (simp add: os_remove_def Let_def)
  then have c: "q \<notin> files (cleanup env w2 file q)"
    using assms(1) ne by (simp add: cleanup_def)
  obtain r w3 where md: "make_documents env (cleanup env w2 file q) t = (r, w3)"
    by (cases "make_documents env (cleanup env w2 file q) t")
  then have "load_data_try env self w file fs = (r, w3)"
    using assms(1,3,4) by (simp add: load_data_try_def resolve_file_def)
  from load_data_files [OF this] make_documents_frame(1) [OF md] c show ?thesis by simp
qed

lemma temp_file_left_on_error:
  assumes "\<not> is_url file" and "endswith (lower (file_str env file)) video_exts"
    and "prepare_audio_file env w (file_str env file) fs = (Inr q, w1)"
    and "transcribe_with_assemblyai env self w1 q = (Inl e, w2)"
  shows "fst (load_data env self w file fs) = Inl e \<and> q \<notin> files w \<and>
         q \<in> files (snd (load_data env self w file fs))"
proof -
  note x = extract_audio_Inr [OF prepare_video_Inr [OF assms(2,3)]]
  have "load_data_try env self w file fs = (Inl e, w2)"
    using assms(1,3,4) by (simp add: load_data_try_def resolve_file_def)
  from load_data_files [OF this] transcribe_frame(1) [OF assms(4)] x(2,3)
  show ?thesis by simp
qed

text \<open>
  Claim C3. After a call that created a temporary extraction file, the file should be
  gone whether the call returned or raised. Here the input is the video \<^verbatim>\<open>talk.mp4\<close>
  and the service reports an error: \<^verbatim>\<open>load_data\<close> raises, \<^verbatim>\<open>os.remove\<close> is never
  called, and the temporary file, which was not there before, is still on disk.
\<close>

theorem temp_file_left_after_error:
  "fst (load_data failing_env main_reader disk0 (Str ''talk.mp4'') None)
      = Inl (PyException ''Transcription failed: File does not contain audio'') \<and>
   ''/tmp/tmpk3x9.mp3'' \<notin> files disk0 \<and>
   ''/tmp/tmpk3x9.mp3'' \<in> files (snd (load_data failing_env main_reader disk0 (Str ''talk.mp4'') None)) \<and>
   calls is_remove (snd (load_data failing_env main_reader disk0 (Str ''talk.mp4'') None)) = []"
  by (simp add: run_defs str_defs ex_defs calls_def)

end
